theory Spec2Isabelle
  imports Main "HOL-Library.AList"
begin

section \<open>JavaScript values\<close>

text \<open>
  The values that \<^verbatim>\<open>yaml.load\<close> hands to the installer: \<^verbatim>\<open>null\<close>, booleans, numbers,
  strings, and objects. Numbers are the integers, of a size that JavaScript holds
  exactly and prints digit by digit, and \<^verbatim>\<open>NaN\<close>, the one number that is not \<^verbatim>\<open>===\<close>
  to itself; fractions, infinities and dates are left out. An array is an object too
  (\<^verbatim>\<open>typeof [] === 'object'\<close>): it is kept as an object of kind \<open>Array\<close> whose own
  enumerable properties are its indices \<^verbatim>\<open>'0'\<close>, \<^verbatim>\<open>'1'\<close>, ... in order, which is what
  \<^verbatim>\<open>Object.entries\<close> lists. An object is the association list of its own enumerable
  properties in the order they were added, which is the order \<^verbatim>\<open>Object.entries\<close> yields
  them in for keys that are not array indices. \<open>JBuiltin n\<close> is the built-in function or
  object that every object inherits under the name \<open>n\<close> (\<^verbatim>\<open>{}.toString\<close>,
  \<^verbatim>\<open>{}.constructor\<close>, ...). \<^verbatim>\<open>undefined\<close> is \<open>None\<close> wherever a value may be missing.
\<close>

datatype kind = Plain | Array

datatype jsval =
    JNull
  | JBool bool
  | JNum int
  | JNaN
  | JStr string
  | JObject kind "(string \<times> jsval) list"
  | JBuiltin string

text \<open>
  What can be thrown: the installer's own \<^verbatim>\<open>InstallException\<close> with its message, a
  TypeError of the language, a file-system error (code and path), the error of
  \<^verbatim>\<open>execSync\<close> for a command that failed (with its message), and whatever the YAML
  parser throws on text it rejects. \<open>Uncaught e\<close> is \<open>e\<close> thrown where no promise
  catches it, which ends the process. \<open>Unmodelled\<close> is no exception: it marks a step
  that this model does not follow, such as a read or a write of a property of a built-in
  object, or the length of an array.
\<close>

datatype error =
    InstallException string
  | TypeError
  | FsError string string
  | ExecError string
  | YAMLException
  | Uncaught error
  | Unmodelled

subsection \<open>Strings\<close>

definition startsWith :: "string \<Rightarrow> string \<Rightarrow> bool" where
  "startsWith s p = (take (length p) s = p)"

definition slice :: "string \<Rightarrow> nat \<Rightarrow> string" where
  "slice s n = drop n s"

definition is_ws :: "char \<Rightarrow> bool" where
  "is_ws c = (c \<in> set [CHR '' '', CHR 0x09, CHR 0x0A, CHR 0x0B, CHR 0x0C, CHR 0x0D])"

definition trim :: "string \<Rightarrow> string" where
  "trim s = rev (dropWhile is_ws (rev (dropWhile is_ws s)))"

fun split_on :: "char \<Rightarrow> string \<Rightarrow> string list" where
  "split_on sep [] = [[]]"
| "split_on sep (c # cs) =
     (if c = sep then [] # split_on sep cs
      else (case split_on sep cs of
              [] \<Rightarrow> [[c]]
            | w # ws \<Rightarrow> (c # w) # ws))"

fun intercalate :: "string \<Rightarrow> string list \<Rightarrow> string" where
  "intercalate sep [] = []"
| "intercalate sep [x] = x"
| "intercalate sep (x # y # ys) = x @ sep @ intercalate sep (y # ys)"

fun replace_first :: "string \<Rightarrow> string \<Rightarrow> string \<Rightarrow> string" where
  "replace_first [] pat rep = (if pat = [] then rep else [])"
| "replace_first (c # cs) pat rep =
     (if startsWith (c # cs) pat then rep @ drop (length pat) (c # cs)
      else c # replace_first cs pat rep)"

definition digit_char :: "nat \<Rightarrow> char" where
  "digit_char d = (''0123456789'' ! d)"

function nat_to_string :: "nat \<Rightarrow> string" where
  "nat_to_string n =
     (if n < 10 then [digit_char n] else nat_to_string (n div 10) @ [digit_char (n mod 10)])"
  by pat_completeness auto
termination
  by (relation "measure id") auto

declare nat_to_string.simps [simp del]

definition int_to_string :: "int \<Rightarrow> string" where
  "int_to_string i = (if i < 0 then CHR ''-'' # nat_to_string (nat (- i)) else nat_to_string (nat i))"

definition quote :: string where
  "quote = [CHR 0x27]"

definition tab :: string where
  "tab = [CHR 0x09]"

definition nl :: string where
  "nl = [CHR 0x0A]"

subsection \<open>Property access\<close>

text \<open>
  The names an object finds in its prototype chain without owning them: those of
  \<^verbatim>\<open>Object.prototype\<close> for every object, and for an array also \<^verbatim>\<open>length\<close> and the
  names of \<^verbatim>\<open>Array.prototype\<close>; a number and a string add those of their own
  prototypes (the lists are those of Node 20).
\<close>

definition Object_prototype_names :: "string list" where
  "Object_prototype_names =
     [''constructor'', ''__proto__'', ''hasOwnProperty'', ''isPrototypeOf'',
      ''propertyIsEnumerable'', ''toLocaleString'', ''toString'', ''valueOf'',
      ''__defineGetter__'', ''__defineSetter__'', ''__lookupGetter__'', ''__lookupSetter__'']"

definition Array_prototype_names :: "string list" where
  "Array_prototype_names =
     [''at'', ''concat'', ''copyWithin'', ''entries'', ''every'', ''fill'', ''filter'',
      ''find'', ''findIndex'', ''findLast'', ''findLastIndex'', ''flat'', ''flatMap'',
      ''forEach'', ''includes'', ''indexOf'', ''join'', ''keys'', ''lastIndexOf'', ''map'',
      ''pop'', ''push'', ''reduce'', ''reduceRight'', ''reverse'', ''shift'', ''slice'',
      ''some'', ''sort'', ''splice'', ''toReversed'', ''toSorted'', ''toSpliced'',
      ''unshift'', ''values'', ''with'']"

definition Number_prototype_names :: "string list" where
  "Number_prototype_names = [''toExponential'', ''toFixed'', ''toPrecision'']"

definition String_prototype_names :: "string list" where
  "String_prototype_names =
     [''anchor'', ''at'', ''big'', ''blink'', ''bold'', ''charAt'', ''charCodeAt'',
      ''codePointAt'', ''concat'', ''endsWith'', ''fixed'', ''fontcolor'', ''fontsize'',
      ''includes'', ''indexOf'', ''isWellFormed'', ''italics'', ''lastIndexOf'', ''link'',
      ''localeCompare'', ''match'', ''matchAll'', ''normalize'', ''padEnd'', ''padStart'',
      ''repeat'', ''replace'', ''replaceAll'', ''search'', ''slice'', ''small'', ''split'',
      ''startsWith'', ''strike'', ''sub'', ''substr'', ''substring'', ''sup'',
      ''toLocaleLowerCase'', ''toLocaleUpperCase'', ''toLowerCase'', ''toUpperCase'',
      ''toWellFormed'', ''trim'', ''trimEnd'', ''trimLeft'', ''trimRight'', ''trimStart'']"

fun inherited :: "kind \<Rightarrow> string list" where
  "inherited Plain = Object_prototype_names"
| "inherited Array = ''length'' # Array_prototype_names @ Object_prototype_names"

text \<open>
  \<^verbatim>\<open>obj[key]\<close>. An own property comes first, then an inherited one, which is a
  built-in; the \<^verbatim>\<open>length\<close> of an array is a number that the list of its properties
  does not give. Reading a property of \<^verbatim>\<open>null\<close> throws a TypeError. A string has its
  characters under their indices and its length.
\<close>

fun js_get :: "jsval \<Rightarrow> string \<Rightarrow> error + jsval option" where
  "js_get JNull k = Inl TypeError"
| "js_get (JObject a ps) k =
     (case map_of ps k of
        Some v \<Rightarrow> Inr (Some v)
      | None \<Rightarrow>
          if a = Array \<and> k = ''length'' then Inl Unmodelled
          else if k \<in> set (inherited a) then Inr (Some (JBuiltin k))
          else Inr None)"
| "js_get (JBuiltin n) k = Inl Unmodelled"
| "js_get (JStr s) k =
     (if k = ''length'' then Inr (Some (JNum (int (length s))))
      else (case find (\<lambda>i. nat_to_string i = k) [0..<length s] of
              Some i \<Rightarrow> Inr (Some (JStr [s ! i]))
            | None \<Rightarrow>
                if k \<in> set (String_prototype_names @ Object_prototype_names)
                then Inr (Some (JBuiltin k)) else Inr None))"
| "js_get (JBool b) k =
     (if k \<in> set Object_prototype_names then Inr (Some (JBuiltin k)) else Inr None)"
| "js_get v k =
     (if k \<in> set (Number_prototype_names @ Object_prototype_names)
      then Inr (Some (JBuiltin k)) else Inr None)"

text \<open>
  \<^verbatim>\<open>key in obj\<close> holds of own and of inherited names, and throws a TypeError on anything
  that is not an object.
\<close>

fun js_in :: "string \<Rightarrow> jsval \<Rightarrow> error + bool" where
  "js_in k (JObject a ps) = Inr (k \<in> set (map fst ps) \<or> k \<in> set (inherited a))"
| "js_in k (JBuiltin n) = Inl Unmodelled"
| "js_in k v = Inl TypeError"

text \<open>
  \<^verbatim>\<open>obj[key] = v\<close> stores an own property; on a primitive it throws a TypeError (the
  file is a module, which is strict code). An assignment to \<^verbatim>\<open>__proto__\<close>, which
  JavaScript hands to the prototype, is stored like any other.
\<close>

fun js_set :: "jsval \<Rightarrow> string \<Rightarrow> jsval \<Rightarrow> error + jsval" where
  "js_set (JObject a ps) k v = Inr (JObject a (AList.update k v ps))"
| "js_set (JBuiltin n) k v = Inl Unmodelled"
| "js_set d k v = Inl TypeError"

definition js_array :: "jsval list \<Rightarrow> jsval" where
  "js_array xs = JObject Array (zip (map nat_to_string [0..<length xs]) xs)"

fun is_object :: "jsval \<Rightarrow> bool" where
  "is_object (JObject a ps) = True"
| "is_object v = False"

text \<open>The scalars of YAML: \<^verbatim>\<open>null\<close>, a boolean, a number, a string.\<close>

fun is_scalar :: "jsval \<Rightarrow> bool" where
  "is_scalar (JObject a ps) = False"
| "is_scalar (JBuiltin n) = False"
| "is_scalar v = True"

section \<open>merge\<close>

definition conflict_message :: "string \<Rightarrow> string" where
  "conflict_message path =
     ''Config key '' @ quote @ path @ quote @ '' defined differently for 2 dynamic plugins''"

text \<open>
  \<open>merge_loop\<close> is the \<^verbatim>\<open>for\<close> loop of \<^verbatim>\<open>merge\<close> over the entries of the source that are
  still to be visited; the destination is passed on updated. \<open>node_or_new\<close> is
  \<^verbatim>\<open>destination[key] ?? {}\<close>. In the branch of the scalars, \<^verbatim>\<open>destination[key] !== value\<close>
  holds when the two differ, and of \<^verbatim>\<open>NaN\<close> against itself.
\<close>

definition node_or_new :: "jsval option \<Rightarrow> jsval" where
  "node_or_new got =
     (case got of None \<Rightarrow> JObject Plain [] | Some JNull \<Rightarrow> JObject Plain [] | Some n \<Rightarrow> n)"

fun merge_loop :: "(string \<times> jsval) list \<Rightarrow> jsval \<Rightarrow> string \<Rightarrow> error + jsval" where
  "merge_loop [] destination prefix = Inr destination"
| "merge_loop ((key, JObject a ps) # rest) destination prefix =
     (case js_get destination key of
        Inl e \<Rightarrow> Inl e
      | Inr got \<Rightarrow>
          (case merge_loop ps (node_or_new got) (key @ ''.'') of
             Inl e \<Rightarrow> Inl e
           | Inr node \<Rightarrow>
               (case js_set destination key node of
                  Inl e \<Rightarrow> Inl e
                | Inr destination' \<Rightarrow> merge_loop rest destination' prefix)))"
| "merge_loop ((key, JBuiltin n) # rest) destination prefix = Inl Unmodelled"
| "merge_loop ((key, value) # rest) destination prefix =
     (case js_in key destination of
        Inl e \<Rightarrow> Inl e
      | Inr present \<Rightarrow>
          (case (if present then js_get destination key else Inr None) of
             Inl e \<Rightarrow> Inl e
           | Inr got \<Rightarrow>
               if present \<and> (value = JNaN \<or> got \<noteq> Some value)
               then Inl (InstallException (conflict_message (prefix @ key)))
               else (case js_set destination key value of
                       Inl e \<Rightarrow> Inl e
                     | Inr destination' \<Rightarrow> merge_loop rest destination' prefix)))"

text \<open>
  \<^verbatim>\<open>Object.entries(source)\<close>: the own properties of an object, the characters of a string
  under their indices, nothing for a number or a boolean, a TypeError for \<^verbatim>\<open>null\<close>.
\<close>

fun Object_entries :: "jsval \<Rightarrow> error + (string \<times> jsval) list" where
  "Object_entries (JObject a ps) = Inr ps"
| "Object_entries (JStr s) = Inr (zip (map nat_to_string [0..<length s]) (map (\<lambda>c. JStr [c]) s))"
| "Object_entries JNull = Inl TypeError"
| "Object_entries (JBuiltin n) = Inl Unmodelled"
| "Object_entries v = Inr []"

definition merge :: "jsval \<Rightarrow> jsval \<Rightarrow> string \<Rightarrow> error + jsval" where
  "merge source destination prefix =
     (case Object_entries source of
        Inl e \<Rightarrow> Inl e
      | Inr es \<Rightarrow> merge_loop es destination prefix)"

section \<open>More of the language\<close>

text \<open>\<^verbatim>\<open>toLowerCase\<close> on the letters of ASCII.\<close>

definition to_lower :: "char \<Rightarrow> char" where
  "to_lower c =
     (if 65 \<le> (of_char c :: nat) \<and> (of_char c :: nat) \<le> 90
      then char_of ((of_char c :: nat) + 32) else c)"

definition toLowerCase :: "string \<Rightarrow> string" where
  "toLowerCase s = map to_lower s"

definition is_digit :: "char \<Rightarrow> bool" where
  "is_digit c = (48 \<le> (of_char c :: nat) \<and> (of_char c :: nat) \<le> 57)"

definition digits_value :: "string \<Rightarrow> int" where
  "digits_value ds = foldl (\<lambda>acc c. 10 * acc + (int (of_char c) - 48)) 0 ds"

text \<open>
  \<^verbatim>\<open>parseInt(s, 10)\<close>: leading white space is skipped, a sign is read, then the longest
  run of decimal digits; with no digit there the result is \<^verbatim>\<open>NaN\<close>, here \<open>None\<close>.
\<close>

definition parseInt :: "string \<Rightarrow> int option" where
  "parseInt s =
     (let t = dropWhile is_ws s;
          neg = (t \<noteq> [] \<and> hd t = CHR ''-'');
          u = (if t \<noteq> [] \<and> (hd t = CHR ''-'' \<or> hd t = CHR ''+'') then tl t else t);
          ds = takeWhile is_digit u
      in if ds = [] then None
         else Some (if neg then - digits_value ds else digits_value ds))"

text \<open>\<^verbatim>\<open>a > b\<close> on numbers, where \<open>b\<close> may be \<^verbatim>\<open>NaN\<close>: every comparison with \<^verbatim>\<open>NaN\<close> is false.\<close>

definition js_gt :: "int \<Rightarrow> int option \<Rightarrow> bool" where
  "js_gt a b = (case b of None \<Rightarrow> False | Some m \<Rightarrow> a > m)"

text \<open>
  The string a value turns into, in a template literal or as a property key. An array
  joins its elements with commas, \<^verbatim>\<open>null\<close> among them as the empty string; a built-in
  function prints as native code.
\<close>

fun to_string :: "jsval \<Rightarrow> string" where
  "to_string JNull = ''null''"
| "to_string (JBool b) = (if b then ''true'' else ''false'')"
| "to_string (JNum n) = int_to_string n"
| "to_string JNaN = ''NaN''"
| "to_string (JStr s) = s"
| "to_string (JObject Plain ps) = ''[object Object]''"
| "to_string (JObject Array ps) =
     intercalate '','' (map (\<lambda>(k, v). if v = JNull then [] else to_string v) ps)"
| "to_string (JBuiltin n) =
     (if n = ''__proto__'' then ''[object Object]''
      else ''function '' @ n @ ''() { [native code] }'')"

definition to_string_opt :: "jsval option \<Rightarrow> string" where
  "to_string_opt v = (case v of None \<Rightarrow> ''undefined'' | Some x \<Rightarrow> to_string x)"

text \<open>
  \<^verbatim>\<open>typeof v === 'object'\<close> holds of objects, arrays and \<^verbatim>\<open>null\<close>. It is asked of what
  \<^verbatim>\<open>yaml.load\<close> returned and of own properties of that, never of a built-in.
\<close>

definition typeof_object :: "jsval \<Rightarrow> bool" where
  "typeof_object v = (v = JNull \<or> is_object v)"

fun isArray :: "jsval \<Rightarrow> bool" where
  "isArray (JObject Array ps) = True"
| "isArray v = False"

text \<open>The elements a \<^verbatim>\<open>for ... of\<close> loop visits in an array that \<^verbatim>\<open>yaml.load\<close> built.\<close>

fun elements :: "jsval \<Rightarrow> jsval list" where
  "elements (JObject a ps) = map snd ps"
| "elements v = []"

text \<open>
  \<^verbatim>\<open>path.join\<close> of two strings on POSIX: the non-empty ones are joined by a separator
  and the result is normalised. Normalising drops empty segments and \<^verbatim>\<open>.\<close>, lets \<^verbatim>\<open>..\<close>
  take back the segment before it (on a relative path it stays when there is none to
  take back), and keeps a leading and a trailing separator.
\<close>

fun normalize_segments :: "bool \<Rightarrow> string list \<Rightarrow> string list \<Rightarrow> string list" where
  "normalize_segments allowAboveRoot [] res = rev res"
| "normalize_segments allowAboveRoot (seg # rest) res =
     (if seg = [] \<or> seg = ''.'' then normalize_segments allowAboveRoot rest res
      else if seg = ''..'' then
        (case res of
           [] \<Rightarrow> normalize_segments allowAboveRoot rest (if allowAboveRoot then [''..''] else [])
         | seg0 # earlier \<Rightarrow>
             if seg0 = ''..''
             then normalize_segments allowAboveRoot rest
                    (if allowAboveRoot then ''..'' # res else res)
             else normalize_segments allowAboveRoot rest earlier)
      else normalize_segments allowAboveRoot rest (seg # res))"

definition path_normalize :: "string \<Rightarrow> string" where
  "path_normalize p =
     (if p = [] then ''.''
      else
        (let isAbsolute = (hd p = CHR ''/'');
             trailingSeparator = (last p = CHR ''/'');
             body = intercalate ''/''
                      (normalize_segments (\<not> isAbsolute) (split_on CHR ''/'' p) [])
         in if body = []
            then (if isAbsolute then ''/'' else if trailingSeparator then ''./'' else ''.'')
            else (if isAbsolute then ''/'' else []) @ body
                 @ (if trailingSeparator then ''/'' else [])))"

definition path_join :: "string \<Rightarrow> string \<Rightarrow> string" where
  "path_join a b =
     path_normalize (if a = [] then b else if b = [] then a else a @ ''/'' @ b)"

section \<open>The world outside the installer\<close>

text \<open>
  An entry of an archive as it is stored: its path, the size its header declares, and
  the bytes that follow.
\<close>

record tar_header =
  hdr_path :: string
  hdr_size :: int
  hdr_content :: string

text \<open>
  The entry object that \<^verbatim>\<open>tar\<close> hands to the filter. It has the properties \<^verbatim>\<open>path\<close>
  and \<^verbatim>\<open>size\<close> of the header; it has no property \<^verbatim>\<open>name\<close>, which is therefore
  \<^verbatim>\<open>undefined\<close> on every entry that \<^verbatim>\<open>tar\<close> builds, until someone assigns it.
\<close>

record entry =
  entry_path :: string
  entry_size :: int
  entry_content :: string
  entry_name :: "string option"

definition ReadEntry :: "tar_header \<Rightarrow> entry" where
  "ReadEntry h =
     \<lparr>entry_path = hdr_path h, entry_size = hdr_size h, entry_content = hdr_content h,
      entry_name = None\<rparr>"

datatype node = File string | Dir

type_synonym filesystem = "string \<Rightarrow> node option"

text \<open>How a command ended: its exit status and what it wrote to its two outputs.\<close>

record completed =
  status :: int
  stdout :: string
  stderr :: string

text \<open>
  The collaborators are parameters. The process arguments and environment (the
  installation root \<^verbatim>\<open>process.argv[2]\<close> is taken to be given); the YAML parser and
  printer; the command \<^verbatim>\<open>npm pack\<close>, which for a package path ends as the record above
  says and leaves the file system as it chooses; the tar reader, which turns the bytes
  of an archive into its entries; and the commands \<^verbatim>\<open>openssl dgst | openssl base64\<close>,
  which map an algorithm and the bytes of the archive to the text they print.
\<close>

record world =
  argv2 :: string
  env_MAX_ENTRY_SIZE :: "string option"
  env_SKIP_INTEGRITY_CHECK :: "string option"
  cwd :: string
  yaml_load :: "string \<Rightarrow> error + jsval option"
  yaml_dump :: "jsval \<Rightarrow> string"
  npm_pack :: "string \<Rightarrow> filesystem \<Rightarrow> completed \<times> filesystem"
  tar_entries :: "string \<Rightarrow> tar_header list"
  openssl_digest :: "string \<Rightarrow> string \<Rightarrow> string"

text \<open>
  What a run leaves behind: the file system, and in order the lines it logged and the
  calls it made to the outside. \<open>ConsoleError\<close> is the report of \<^verbatim>\<open>main().catch\<close>,
  \<open>UncaughtException\<close> the report of the runtime on an exception that nothing caught.
\<close>

datatype event =
    Log string
  | ExecSync string
  | RealPath string
  | RmDir string
  | MkDir string
  | TarExtract string string
  | Unlink string
  | WriteFile string string
  | ConsoleError error
  | UncaughtException error

record state =
  fs :: filesystem
  trace :: "event list"

type_synonym 'a result = "(error + 'a) \<times> state"

definition emit :: "event \<Rightarrow> state \<Rightarrow> state" where
  "emit e s = s\<lparr>trace := trace s @ [e]\<rparr>"

definition existsSync :: "filesystem \<Rightarrow> string \<Rightarrow> bool" where
  "existsSync f p = (f p \<noteq> None)"

definition readFileSync :: "filesystem \<Rightarrow> string \<Rightarrow> error + string" where
  "readFileSync f p =
     (case f p of
        None \<Rightarrow> Inl (FsError ''ENOENT'' p)
      | Some Dir \<Rightarrow> Inl (FsError ''EISDIR'' p)
      | Some (File t) \<Rightarrow> Inr t)"

text \<open>
  The directory a path lies in. The working directory \<^verbatim>\<open>.\<close> and the root \<^verbatim>\<open>/\<close> always
  exist; every other directory exists when the file system has it.
\<close>

definition parent_of :: "string \<Rightarrow> string" where
  "parent_of p =
     (let segs = split_on CHR ''/'' p in
      if length segs \<le> 1 then ''.''
      else if butlast segs = [[]] then ''/''
      else intercalate ''/'' (butlast segs))"

text \<open>
  What stands in the way of creating something at a path: the directory it lies in is
  missing (\<^verbatim>\<open>ENOENT\<close>) or is a file (\<^verbatim>\<open>ENOTDIR\<close>).
\<close>

definition parent_error :: "filesystem \<Rightarrow> string \<Rightarrow> error option" where
  "parent_error f p =
     (let d = parent_of p in
      if d = ''.'' \<or> d = ''/'' then None
      else (case f d of
              Some Dir \<Rightarrow> None
            | Some (File t) \<Rightarrow> Some (FsError ''ENOTDIR'' p)
            | None \<Rightarrow> Some (FsError ''ENOENT'' p)))"

text \<open>
  \<^verbatim>\<open>fs.writeFileSync\<close> creates or replaces the file. It throws when the directory the
  path lies in does not exist, and \<^verbatim>\<open>EISDIR\<close> on a directory.
\<close>

definition writeFileSync :: "string \<Rightarrow> string \<Rightarrow> state \<Rightarrow> error option \<times> state" where
  "writeFileSync p t s =
     (case parent_error (fs s) p of
        Some e \<Rightarrow> (Some e, emit (WriteFile p t) s)
      | None \<Rightarrow>
          if fs s p = Some Dir
          then (Some (FsError ''EISDIR'' p), emit (WriteFile p t) s)
          else (None, emit (WriteFile p t) (s\<lparr>fs := (fs s)(p \<mapsto> File t)\<rparr>)))"

text \<open>\<^verbatim>\<open>fs.realpathSync\<close> throws \<^verbatim>\<open>ENOENT\<close> when nothing exists at the path.\<close>

definition realpathSync :: "string \<Rightarrow> state \<Rightarrow> error option \<times> state" where
  "realpathSync p s =
     (if fs s p = None then (Some (FsError ''ENOENT'' p), emit (RealPath p) s)
      else (None, emit (RealPath p) s))"

text \<open>
  \<^verbatim>\<open>fs.rmdirSync(p, {recursive: true})\<close> removes the directory and all below it, and
  throws \<^verbatim>\<open>ENOTDIR\<close> on a file; \<^verbatim>\<open>fs.mkdirSync\<close> throws \<^verbatim>\<open>EEXIST\<close> on a path in use.
\<close>

definition rmdirSync :: "string \<Rightarrow> state \<Rightarrow> error option \<times> state" where
  "rmdirSync p s =
     (case fs s p of
        None \<Rightarrow> (Some (FsError ''ENOENT'' p), emit (RmDir p) s)
      | Some (File t) \<Rightarrow> (Some (FsError ''ENOTDIR'' p), emit (RmDir p) s)
      | Some Dir \<Rightarrow>
          (None, emit (RmDir p)
             (s\<lparr>fs := (\<lambda>q. if q = p \<or> startsWith q (p @ ''/'') then None else fs s q)\<rparr>)))"

definition mkdirSync :: "string \<Rightarrow> state \<Rightarrow> error option \<times> state" where
  "mkdirSync p s =
     (if fs s p \<noteq> None then (Some (FsError ''EEXIST'' p), emit (MkDir p) s)
      else (case parent_error (fs s) p of
              Some e \<Rightarrow> (Some e, emit (MkDir p) s)
            | None \<Rightarrow> (None, emit (MkDir p) (s\<lparr>fs := (fs s)(p \<mapsto> Dir)\<rparr>))))"

definition unlinkSync :: "string \<Rightarrow> state \<Rightarrow> error option \<times> state" where
  "unlinkSync p s =
     (if fs s p = None then (Some (FsError ''ENOENT'' p), emit (Unlink p) s)
      else (None, emit (Unlink p) (s\<lparr>fs := (fs s)(p := None)\<rparr>)))"

text \<open>
  \<^verbatim>\<open>execSync\<close> runs a command to its end. When the command exits with status 0 it returns
  what the command wrote to its standard output, as a Buffer; otherwise it throws an
  Error whose message is the command and what it wrote to its standard error.
\<close>

definition execSync_result :: "string \<Rightarrow> completed \<Rightarrow> error + string" where
  "execSync_result command c =
     (if status c \<noteq> 0
      then Inl (ExecError (''Command failed: '' @ command
                  @ (if stderr c = [] then [] else nl @ stderr c)))
      else Inr (stdout c))"

text \<open>
  A property read on the Buffer that \<^verbatim>\<open>execSync\<close> returned. A Buffer has its bytes under
  their indices, its length and the methods of its prototype; \<^verbatim>\<open>status\<close>, \<^verbatim>\<open>stdout\<close> and
  \<^verbatim>\<open>stderr\<close>, the names \<^verbatim>\<open>main\<close> reads, are not among them and read as \<^verbatim>\<open>undefined\<close>.
  No other name is looked up.
\<close>

definition Buffer_get :: "string \<Rightarrow> string \<Rightarrow> error + jsval option" where
  "Buffer_get buffer name =
     (if name \<in> set [''status'', ''stdout'', ''stderr''] then Inr None else Inl Unmodelled)"

section \<open>verifyPackageIntegrity\<close>

definition RECOGNIZED_ALGORITHMS :: "string list" where
  "RECOGNIZED_ALGORITHMS = [''sha512'', ''sha384'', ''sha256'']"

text \<open>
  \<^verbatim>\<open>Buffer.from(hashDigest, 'base64')\<close>. Node decodes base64 leniently: characters
  outside the alphabet are passed over, and no string makes the call throw. The buffer
  is not used by the caller, so only the outcome of the call is kept.
\<close>

definition Buffer_from_base64 :: "string \<Rightarrow> error + unit" where
  "Buffer_from_base64 hashDigest = Inr ()"

text \<open>
  \<^verbatim>\<open>cat ${archive}\<close> goes through the shell, which splits the path at its blanks: \<^verbatim>\<open>cat\<close>
  is given each word as a file of its own, prints those it can read and fails when
  there is one it cannot. (What else the shell reads into a path, such as quotes, \<^verbatim>\<open>$\<close>
  or \<^verbatim>\<open>;\<close>, is not followed.)
\<close>

definition cat_words :: "string \<Rightarrow> string list" where
  "cat_words archive = filter (\<lambda>word. word \<noteq> []) (split_on CHR '' '' archive)"

fun cat_file :: "filesystem \<Rightarrow> string \<Rightarrow> completed" where
  "cat_file f word =
     (case f word of
        Some (File bytes) \<Rightarrow> \<lparr>status = 0, stdout = bytes, stderr = []\<rparr>
      | Some Dir \<Rightarrow>
          \<lparr>status = 1, stdout = [], stderr = ''cat: '' @ word @ '': Is a directory'' @ nl\<rparr>
      | None \<Rightarrow>
          \<lparr>status = 1, stdout = [],
           stderr = ''cat: '' @ word @ '': No such file or directory'' @ nl\<rparr>)"

definition cat_command :: "filesystem \<Rightarrow> string \<Rightarrow> completed" where
  "cat_command f archive =
     (let parts = map (cat_file f) (cat_words archive) in
      \<lparr>status = (if list_all (\<lambda>c. status c = 0) parts then 0 else 1),
       stdout = concat (map stdout parts),
       stderr = concat (map stderr parts)\<rparr>)"

text \<open>
  The three \<^verbatim>\<open>execSync\<close> calls that hash the archive. When \<^verbatim>\<open>cat\<close> fails the first call
  throws, and nothing is hashed.
\<close>

definition digest_archive :: "world \<Rightarrow> string \<Rightarrow> string \<Rightarrow> state \<Rightarrow> string result" where
  "digest_archive w algorithm archive s =
     (case execSync_result (''cat '' @ archive) (cat_command (fs s) archive) of
        Inl e \<Rightarrow> (Inl e, emit (ExecSync (''cat '' @ archive)) s)
      | Inr bytes \<Rightarrow>
          (Inr (openssl_digest w algorithm bytes),
           emit (ExecSync ''openssl base64 -A'')
             (emit (ExecSync (''openssl dgst -'' @ algorithm @ '' -binary''))
               (emit (ExecSync (''cat '' @ archive)) s))))"

definition verifyPackageIntegrity ::
  "world \<Rightarrow> jsval \<Rightarrow> string \<Rightarrow> string \<Rightarrow> state \<Rightarrow> error option \<times> state" where
  "verifyPackageIntegrity w plugin archive workingDirectory s =
     (case js_get plugin ''package'' of
        Inl e \<Rightarrow> (Some e, s)
      | Inr pkg \<Rightarrow>
     (case js_in ''integrity'' plugin of
        Inl e \<Rightarrow> (Some e, s)
      | Inr has \<Rightarrow>
          if \<not> has
          then (Some (InstallException
                  (''Package integrity for '' @ to_string_opt pkg @ '' is missing'')), s)
          else
     (case js_get plugin ''integrity'' of
        Inr (Some (JStr integrity)) \<Rightarrow>
          (let integrityParts = split_on CHR ''-'' integrity in
           if length integrityParts \<noteq> 2
           then (Some (InstallException
                   (''Package integrity for '' @ to_string_opt pkg
                    @ '' must be a string of the form <algorithm>-<hash>'')), s)
           else
             (let algorithm = integrityParts ! 0; hashDigest = integrityParts ! 1 in
              if algorithm \<notin> set RECOGNIZED_ALGORITHMS
              then (Some (InstallException
                      (to_string_opt pkg @ '': Provided Package integrity algorithm ''
                       @ algorithm
                       @ '' is not supported, please use one of following algorithms ''
                       @ intercalate '','' RECOGNIZED_ALGORITHMS @ '' instead'')), s)
              else
                (case Buffer_from_base64 hashDigest of
                   Inl e \<Rightarrow>
                     (Some (InstallException
                        (to_string_opt pkg @ '': Provided Package integrity hash ''
                         @ hashDigest @ '' is not a valid base64 encoding'')), s)
                 | Inr u \<Rightarrow>
                     (let hashed = digest_archive w algorithm archive s in
                      case fst hashed of
                        Inl e \<Rightarrow> (Some e, snd hashed)
                      | Inr printed \<Rightarrow>
                          (let output = trim printed in
                           if hashDigest \<noteq> output
                           then (Some (InstallException
                                   (to_string_opt pkg
                                    @ '': The hash of the downloaded package '' @ output
                                    @ '' does not match the provided integrity hash ''
                                    @ hashDigest
                                    @ '' provided in the configuration file'')), snd hashed)
                           else (None, snd hashed))))))
      | Inl e \<Rightarrow> (Some e, s)
      | _ \<Rightarrow>
          (Some (InstallException
             (''Package integrity for '' @ to_string_opt pkg @ '' must be a string'')), s))))"

section \<open>Extraction\<close>

text \<open>
  The \<^verbatim>\<open>filter\<close> callback given to \<^verbatim>\<open>tar.extract\<close>. It reads \<^verbatim>\<open>entry.name\<close> and calls
  \<^verbatim>\<open>startsWith\<close> on it, which throws a TypeError when the entry has no such property;
  on an entry that has one it throws an InstallException, or renames the entry and
  accepts it.
\<close>

definition extract_filter :: "int option \<Rightarrow> entry \<Rightarrow> error + entry" where
  "extract_filter maxEntrySize e =
     (case entry_name e of
        None \<Rightarrow> Inl TypeError
      | Some name \<Rightarrow>
          if \<not> startsWith name ''package/''
          then Inl (InstallException
                 (''NPM package archive archive does not start with 'package/' as it should: ''
                  @ name))
          else if js_gt (entry_size e) maxEntrySize
          then Inl (InstallException (''Zip bomb detected in '' @ name))
          else Inr (e\<lparr>entry_name := Some (slice name 8)\<rparr>))"

text \<open>
  \<^verbatim>\<open>tar.extract\<close> visits the entries in archive order, builds the entry object of each
  and asks the filter about it. It calls the filter from the handler of a stream event:
  an exception of the filter is caught by no one, so it is not the rejection of the
  promise that \<^verbatim>\<open>main\<close> awaits but the end of the process. An accepted entry is written
  under its \<^verbatim>\<open>path\<close>, which the filter leaves as it was, relative to \<^verbatim>\<open>cwd\<close>.
\<close>

fun extract_entries ::
  "int option \<Rightarrow> string \<Rightarrow> tar_header list \<Rightarrow> filesystem \<Rightarrow> error option \<times> filesystem" where
  "extract_entries maxEntrySize dir [] f = (None, f)"
| "extract_entries maxEntrySize dir (h # hs) f =
     (case extract_filter maxEntrySize (ReadEntry h) of
        Inl err \<Rightarrow> (Some (Uncaught err), f)
      | Inr e \<Rightarrow>
          extract_entries maxEntrySize dir hs
            (f(path_join dir (entry_path e) \<mapsto> File (entry_content e))))"

definition tar_extract ::
  "world \<Rightarrow> int option \<Rightarrow> string \<Rightarrow> string \<Rightarrow> state \<Rightarrow> error option \<times> state" where
  "tar_extract w maxEntrySize archive dir s =
     (case fs s archive of
        Some (File bytes) \<Rightarrow>
          (case extract_entries maxEntrySize dir (tar_entries w bytes) (fs s) of
             (r, f') \<Rightarrow> (r, emit (TarExtract archive dir) (s\<lparr>fs := f'\<rparr>)))
      | Some Dir \<Rightarrow> (Some (FsError ''EISDIR'' archive), emit (TarExtract archive dir) s)
      | None \<Rightarrow> (Some (FsError ''ENOENT'' archive), emit (TarExtract archive dir) s))"

section \<open>main\<close>

definition dynamicPluginsFile :: string where
  "dynamicPluginsFile = ''dynamic-plugins.yaml''"

definition dynamicPluginsGlobalConfigFile :: "world \<Rightarrow> string" where
  "dynamicPluginsGlobalConfigFile w = path_join (argv2 w) ''app-config.dynamic-plugins.yaml''"

definition maxEntrySize :: "world \<Rightarrow> int option" where
  "maxEntrySize w =
     parseInt (case env_MAX_ENTRY_SIZE w of
                 None \<Rightarrow> ''20000000''
               | Some v \<Rightarrow> if v = [] then ''20000000'' else v)"

definition skipIntegrityCheck :: "world \<Rightarrow> bool" where
  "skipIntegrityCheck w =
     (case env_SKIP_INTEGRITY_CHECK w of
        None \<Rightarrow> False
      | Some v \<Rightarrow> toLowerCase v = ''true'')"

definition globalConfig0 :: jsval where
  "globalConfig0 =
     JObject Plain [(''dynamicPlugins'',
       JObject Plain [(''rootDirectory'', JStr ''dynamic-plugins-root'')])]"

subsection \<open>Resolution of the plugin list\<close>

text \<open>
  \<open>allPlugins\<close> is a plain object keyed by package, kept as the list of its own
  properties in the order they were added, which is the order of \<^verbatim>\<open>Object.values\<close> for
  package names that are not array indices; its values are the plugin objects of the
  manifests. The inner loop over
  the plugins of one include stores each entry under the string its \<^verbatim>\<open>package\<close> property
  turns into. Under the key \<^verbatim>\<open>__proto__\<close> the assignment goes to the prototype of
  \<open>allPlugins\<close>, where the model does not follow it.
\<close>

fun include_plugins :: "jsval list \<Rightarrow> (string \<times> jsval) list \<Rightarrow> error + (string \<times> jsval) list" where
  "include_plugins [] allPlugins = Inr allPlugins"
| "include_plugins (plugin # rest) allPlugins =
     (case js_get plugin ''package'' of
        Inl e \<Rightarrow> Inl e
      | Inr pkg \<Rightarrow>
          if to_string_opt pkg = ''__proto__'' then Inl Unmodelled
          else include_plugins rest (AList.update (to_string_opt pkg) plugin allPlugins))"

fun main_includes ::
  "world \<Rightarrow> jsval list \<Rightarrow> (string \<times> jsval) list \<Rightarrow> state \<Rightarrow> (string \<times> jsval) list result" where
  "main_includes w [] allPlugins s = (Inr allPlugins, s)"
| "main_includes w (JStr include # rest) allPlugins s =
     (let s1 = emit (Log (nl @ ''======= Including dynamic plugins from '' @ include)) s in
      if \<not> existsSync (fs s1) include
      then (Inl (InstallException (''File '' @ include @ '' does not exist'')), s1)
      else
        (case readFileSync (fs s1) include of
           Inl e \<Rightarrow> (Inl e, s1)
         | Inr text \<Rightarrow>
        (case yaml_load w text of
           Inl e \<Rightarrow> (Inl e, s1)
         | Inr None \<Rightarrow>
             (Inl (InstallException (include @ '' content must be a YAML object'')), s1)
         | Inr (Some includeContent) \<Rightarrow>
             if \<not> typeof_object includeContent
             then (Inl (InstallException (include @ '' content must be a YAML object'')), s1)
             else
        (case js_get includeContent ''plugins'' of
           Inl e \<Rightarrow> (Inl e, s1)
         | Inr None \<Rightarrow>
             (Inl (InstallException
                (''content of the 'plugins' field must be a list in '' @ include)), s1)
         | Inr (Some includePlugins) \<Rightarrow>
             if \<not> isArray includePlugins
             then (Inl (InstallException
                     (''content of the 'plugins' field must be a list in '' @ include)), s1)
             else
        (case include_plugins (elements includePlugins) allPlugins of
           Inl e \<Rightarrow> (Inl e, s1)
         | Inr allPlugins' \<Rightarrow> main_includes w rest allPlugins' s1)))))"
| "main_includes w (include # rest) allPlugins s =
     (Inl (InstallException
        (''content of the 'includes' field must be a list of strings in ''
         @ dynamicPluginsFile)), s)"

text \<open>
  The override of an included plugin: every field of the root entry but \<^verbatim>\<open>package\<close> is
  assigned to the entry that \<open>allPlugins\<close> holds.
\<close>

fun override :: "(string \<times> jsval) list \<Rightarrow> jsval \<Rightarrow> error + jsval" where
  "override [] target = Inr target"
| "override ((key, value) # rest) target =
     (if key = ''package'' then override rest target
      else (case js_set target key value of
              Inl e \<Rightarrow> Inl e
            | Inr target' \<Rightarrow> override rest target'))"

text \<open>
  The loop over the plugins of the root manifest. \<^verbatim>\<open>package_ in allPlugins\<close> holds of a
  package that \<open>allPlugins\<close> has, and of one named like a property that every object
  inherits; there the override is an assignment to a built-in object.
\<close>

fun main_plugins ::
  "jsval list \<Rightarrow> (string \<times> jsval) list \<Rightarrow> state \<Rightarrow> (string \<times> jsval) list result" where
  "main_plugins [] allPlugins s = (Inr allPlugins, s)"
| "main_plugins (plugin # rest) allPlugins s =
     (case js_get plugin ''package'' of
        Inl e \<Rightarrow> (Inl e, s)
      | Inr (Some (JStr package)) \<Rightarrow>
          (case map_of allPlugins package of
             None \<Rightarrow>
               if package \<in> set Object_prototype_names
               then (case Object_entries plugin of
                       Inl e \<Rightarrow> (Inl e, s)
                     | Inr props \<Rightarrow>
                         (case override props (JBuiltin package) of
                            Inl e \<Rightarrow>
                              (Inl e, emit (Log (nl @ ''======= Overriding dynamic plugin configuration ''
                                                 @ package)) s)
                          | Inr target' \<Rightarrow>
                              main_plugins rest allPlugins
                                (emit (Log (nl @ ''======= Overriding dynamic plugin configuration ''
                                            @ package)) s)))
               else main_plugins rest (AList.update package plugin allPlugins) s
           | Some target \<Rightarrow>
               (let s1 = emit (Log (nl @ ''======= Overriding dynamic plugin configuration ''
                                    @ package)) s in
                case Object_entries plugin of
                  Inl e \<Rightarrow> (Inl e, s1)
                | Inr props \<Rightarrow>
                    (case override props target of
                       Inl e \<Rightarrow> (Inl e, s1)
                     | Inr target' \<Rightarrow>
                         main_plugins rest (AList.update package target' allPlugins) s1)))
      | Inr other \<Rightarrow>
          (Inl (InstallException
             (''content of the 'plugins.package' field must be a string in ''
              @ dynamicPluginsFile)), s))"

subsection \<open>Installation of one plugin\<close>

definition andThen ::
  "error option \<times> state \<Rightarrow> (state \<Rightarrow> error option \<times> state) \<Rightarrow> error option \<times> state" where
  "andThen r f = (case r of (Some e, s) \<Rightarrow> (Some e, s) | (None, s) \<Rightarrow> f s)"

text \<open>
  The path handed to \<^verbatim>\<open>npm pack\<close>, and the directory the archive is extracted into.
\<close>

definition packagePath_of :: "world \<Rightarrow> string \<Rightarrow> string" where
  "packagePath_of w package =
     (if startsWith package ''./'' then path_join (cwd w) (slice package 2) else package)"

definition directory_of :: "string \<Rightarrow> string" where
  "directory_of archive = replace_first archive ''.tgz'' ''''"

text \<open>From the archive to the extracted directory, and the archive removed.\<close>

definition extract_archive ::
  "world \<Rightarrow> int option \<Rightarrow> string \<Rightarrow> state \<Rightarrow> error option \<times> state" where
  "extract_archive w maxSize archive s =
     (let directory = directory_of archive in
      andThen (realpathSync directory s) (\<lambda>s.
      andThen (rmdirSync directory
                 (emit (Log (tab @ ''==> Removing previous plugin directory '' @ directory)) s)) (\<lambda>s.
      andThen (mkdirSync directory s) (\<lambda>s.
      andThen (tar_extract w maxSize archive directory
                 (emit (Log (tab @ ''==> Extracting package archive '' @ archive)) s)) (\<lambda>s.
      unlinkSync archive (emit (Log (tab @ ''==> Removing package archive '' @ archive)) s))))))"

definition merge_pluginConfig :: "jsval \<Rightarrow> string \<Rightarrow> jsval \<Rightarrow> state \<Rightarrow> jsval result" where
  "merge_pluginConfig plugin package globalConfig s =
     (let finished = Log (tab @ ''==> Successfully installed dynamic plugin '' @ package) in
      case js_in ''pluginConfig'' plugin of
        Inl e \<Rightarrow> (Inl e, s)
      | Inr False \<Rightarrow> (Inr globalConfig, emit finished s)
      | Inr True \<Rightarrow>
          (let s1 = emit (Log (tab @ ''==> Merging plugin-specific configuration'')) s in
           case js_get plugin ''pluginConfig'' of
             Inl e \<Rightarrow> (Inl e, s1)
           | Inr None \<Rightarrow> (Inr globalConfig, emit finished s1)
           | Inr (Some config) \<Rightarrow>
               if config \<noteq> JNull \<and> typeof_object config
               then (case merge config globalConfig '''' of
                       Inl e \<Rightarrow> (Inl e, s1)
                     | Inr globalConfig' \<Rightarrow> (Inr globalConfig', emit finished s1))
               else (Inr globalConfig, emit finished s1)))"

text \<open>
  What follows the call of \<^verbatim>\<open>npm pack\<close> and the test of its result: verification where
  it is due, extraction, merge.
\<close>

definition install_archive ::
  "world \<Rightarrow> jsval \<Rightarrow> string \<Rightarrow> bool \<Rightarrow> string \<Rightarrow> jsval \<Rightarrow> state \<Rightarrow> jsval result" where
  "install_archive w plugin package packageIsLocal archive globalConfig s =
     (case (if \<not> packageIsLocal \<and> \<not> skipIntegrityCheck w
            then verifyPackageIntegrity w plugin archive (argv2 w)
                   (emit (Log (tab @ ''==> Verifying package integrity'')) s)
            else (None, s)) of
        (Some e, s1) \<Rightarrow> (Inl e, s1)
      | (None, s1) \<Rightarrow>
          (case extract_archive w (maxEntrySize w) archive s1 of
             (Some e, s2) \<Rightarrow> (Inl e, s2)
           | (None, s2) \<Rightarrow> merge_pluginConfig plugin package globalConfig s2))"

text \<open>
  The call of \<^verbatim>\<open>npm pack\<close> and the test of its result. \<open>completed\<close> is what \<^verbatim>\<open>execSync\<close>
  returned, a Buffer; the code reads its \<^verbatim>\<open>status\<close>, then its \<^verbatim>\<open>stderr\<close> or its
  \<^verbatim>\<open>stdout\<close>, and calls \<^verbatim>\<open>toString\<close> on what it read, which throws a TypeError on
  \<^verbatim>\<open>undefined\<close>.
\<close>

definition fetch_plugin ::
  "world \<Rightarrow> jsval \<Rightarrow> string \<Rightarrow> jsval \<Rightarrow> state \<Rightarrow> jsval result" where
  "fetch_plugin w plugin package globalConfig s =
     (let packageIsLocal = startsWith package ''./'';
          packagePath = packagePath_of w package;
          s1 = emit (Log (tab @ ''==> Grabbing package archive through `npm pack`'')) s;
          packed = npm_pack w packagePath (fs s1);
          s2 = emit (ExecSync (''npm pack '' @ packagePath)) (s1\<lparr>fs := snd packed\<rparr>)
      in case execSync_result (''npm pack '' @ packagePath) (fst packed) of
           Inl e \<Rightarrow> (Inl e, s2)
         | Inr completed \<Rightarrow>
        (case Buffer_get completed ''status'' of
           Inl e \<Rightarrow> (Inl e, s2)
         | Inr exit_status \<Rightarrow>
             if exit_status \<noteq> Some (JNum 0)
             then (case Buffer_get completed ''stderr'' of
                     Inl e \<Rightarrow> (Inl e, s2)
                   | Inr None \<Rightarrow> (Inl TypeError, s2)
                   | Inr (Some err) \<Rightarrow>
                       (Inl (InstallException
                          (''Error while installing plugin '' @ package
                           @ '' with 'npm pack': '' @ trim (to_string err))), s2))
             else (case Buffer_get completed ''stdout'' of
                     Inl e \<Rightarrow> (Inl e, s2)
                   | Inr None \<Rightarrow> (Inl TypeError, s2)
                   | Inr (Some out) \<Rightarrow>
                       install_archive w plugin package packageIsLocal
                         (path_join (argv2 w) (trim (to_string out))) globalConfig s2)))"

text \<open>One round of the loop over \<^verbatim>\<open>Object.values(allPlugins)\<close>.\<close>

definition install_plugin :: "world \<Rightarrow> jsval \<Rightarrow> jsval \<Rightarrow> state \<Rightarrow> jsval result" where
  "install_plugin w plugin globalConfig s =
     (case js_get plugin ''package'' of
        Inl e \<Rightarrow> (Inl e, s)
      | Inr pkg \<Rightarrow>
     (case js_in ''disabled'' plugin of
        Inl e \<Rightarrow> (Inl e, s)
      | Inr has_disabled \<Rightarrow>
          if has_disabled \<and> js_get plugin ''disabled'' = Inr (Some (JBool True))
          then (Inr globalConfig,
                emit (Log (nl @ ''======= Skipping disabled dynamic plugin '' @ to_string_opt pkg)) s)
          else
            (let s1 = emit (Log (nl @ ''======= Installing dynamic plugin '' @ to_string_opt pkg)) s in
             case pkg of
               Some (JStr package) \<Rightarrow>
                 if \<not> startsWith package ''./'' \<and> \<not> skipIntegrityCheck w
                    \<and> js_in ''integrity'' plugin = Inr False
                 then (Inl (InstallException
                         (''No integrity hash provided for Package '' @ package)), s1)
                 else fetch_plugin w plugin package globalConfig s1
             | other \<Rightarrow> (Inl TypeError, s1))))"

fun main_install :: "world \<Rightarrow> jsval list \<Rightarrow> jsval \<Rightarrow> state \<Rightarrow> jsval result" where
  "main_install w [] globalConfig s = (Inr globalConfig, s)"
| "main_install w (plugin # rest) globalConfig s =
     (case install_plugin w plugin globalConfig s of
        (Inl e, s') \<Rightarrow> (Inl e, s')
      | (Inr globalConfig', s') \<Rightarrow> main_install w rest globalConfig' s')"

subsection \<open>The whole run\<close>

text \<open>
  \<^verbatim>\<open>content.includes ?? []\<close> and \<^verbatim>\<open>content.plugins ?? []\<close>, each required to be an array.
  On \<^verbatim>\<open>null\<close> the read throws a TypeError; on a root manifest that is itself an array,
  \<^verbatim>\<open>content.includes\<close> is the method of that name, which is not an array.
\<close>

definition list_field :: "jsval \<Rightarrow> string \<Rightarrow> error + jsval list" where
  "list_field content field =
     (case js_get content field of
        Inl e \<Rightarrow> Inl e
      | Inr None \<Rightarrow> Inr []
      | Inr (Some JNull) \<Rightarrow> Inr []
      | Inr (Some v) \<Rightarrow>
          if isArray v then Inr (elements v)
          else Inl (InstallException
                 (''content of the '' @ quote @ field @ quote @ '' field must be a list in ''
                  @ dynamicPluginsFile)))"

definition install_all :: "world \<Rightarrow> jsval \<Rightarrow> state \<Rightarrow> error option \<times> state" where
  "install_all w content s =
     (let s1 = (if skipIntegrityCheck w
                then emit (Log ''SKIP_INTEGRITY_CHECK has been set to true, skipping integrity check of packages'') s
                else s) in
      case list_field content ''includes'' of
        Inl e \<Rightarrow> (Some e, s1)
      | Inr includes \<Rightarrow>
     (case main_includes w includes [] s1 of
        (Inl e, s2) \<Rightarrow> (Some e, s2)
      | (Inr included, s2) \<Rightarrow>
     (case list_field content ''plugins'' of
        Inl e \<Rightarrow> (Some e, s2)
      | Inr plugins \<Rightarrow>
     (case main_plugins plugins included s2 of
        (Inl e, s3) \<Rightarrow> (Some e, s3)
      | (Inr allPlugins, s3) \<Rightarrow>
     (case main_install w (map snd allPlugins) globalConfig0 s3 of
        (Inl e, s4) \<Rightarrow> (Some e, s4)
      | (Inr globalConfig, s4) \<Rightarrow>
          writeFileSync (dynamicPluginsGlobalConfigFile w) (yaml_dump w globalConfig) s4)))))"

definition main :: "world \<Rightarrow> state \<Rightarrow> error option \<times> state" where
  "main w s =
     (if \<not> existsSync (fs s) dynamicPluginsFile
      then writeFileSync (dynamicPluginsGlobalConfigFile w) ''''
             (emit (Log (''No '' @ dynamicPluginsFile
                         @ '' file found. Skipping dynamic plugins installation.'')) s)
      else
        (case readFileSync (fs s) dynamicPluginsFile of
           Inl e \<Rightarrow> (Some e, s)
         | Inr text \<Rightarrow>
        (case yaml_load w text of
           Inl e \<Rightarrow> (Some e, s)
         | Inr loaded \<Rightarrow>
             (let skipped =
                    writeFileSync (dynamicPluginsGlobalConfigFile w) ''''
                      (emit (Log (dynamicPluginsFile
                         @ '' file is empty. Skipping dynamic plugins installation.'')) s)
              in case loaded of
                   None \<Rightarrow> skipped
                 | Some content \<Rightarrow>
                     if content = JStr '''' then skipped
                     else if \<not> typeof_object content
                     then (Some (InstallException
                             (dynamicPluginsFile @ '' content must be a YAML object'')), s)
                     else install_all w content s))))"

text \<open>
  The process. A run of \<^verbatim>\<open>main\<close> that returns exits with status 0. An exception that
  rejects the promise of \<^verbatim>\<open>main\<close> reaches \<^verbatim>\<open>main().catch\<close>, which prints it and exits
  with status 1; one that nothing catches is printed by the runtime, which exits with
  status 1 as well. (A run that the model does not follow to its end is reported like
  a rejection, with the mark \<open>Unmodelled\<close> in the place of the error.)
\<close>

definition run :: "world \<Rightarrow> state \<Rightarrow> int \<times> state" where
  "run w s =
     (case main w s of
        (None, s') \<Rightarrow> (0, s')
      | (Some (Uncaught e), s') \<Rightarrow> (1, emit (UncaughtException e) s')
      | (Some e, s') \<Rightarrow> (1, emit (ConsoleError e) s'))"

section \<open>Concrete runs\<close>

text \<open>
  A world to run the installer in: the root \<^verbatim>\<open>/opt/plugins\<close>, no environment settings,
  an \<^verbatim>\<open>npm pack\<close> that knows the package \<^verbatim>\<open>good-plugin\<close> and fails on every other, three
  archives told apart by their bytes, and a YAML parser that knows a few manifests: the
  empty text, which loads as \<^verbatim>\<open>undefined\<close>; texts of blanks or comments only, which load
  as \<^verbatim>\<open>null\<close>; and three manifests with plugins.
\<close>

definition demo_entries :: "string \<Rightarrow> tar_header list" where
  "demo_entries bytes =
     (if bytes = ''GOOD'' then
        [\<lparr>hdr_path = ''package/package.json'', hdr_size = 2, hdr_content = ''{}''\<rparr>,
         \<lparr>hdr_path = ''package/dist/index.js'', hdr_size = 4, hdr_content = ''code''\<rparr>]
      else if bytes = ''EVIL'' then
        [\<lparr>hdr_path = ''package/index.js'', hdr_size = 4, hdr_content = ''code''\<rparr>,
         \<lparr>hdr_path = ''evil/../../etc/passwd'', hdr_size = 4, hdr_content = ''root''\<rparr>]
      else if bytes = ''ONLYEVIL'' then
        [\<lparr>hdr_path = ''evil/../../etc/passwd'', hdr_size = 4, hdr_content = ''root''\<rparr>]
      else if bytes = ''BOMB'' then
        [\<lparr>hdr_path = ''package/big.bin'', hdr_size = 20000001, hdr_content = ''tiny''\<rparr>]
      else if bytes = ''SMALL'' then
        [\<lparr>hdr_path = ''package/small.bin'', hdr_size = 4, hdr_content = ''tiny''\<rparr>]
      else [])"

definition demo_pack :: "string \<Rightarrow> filesystem \<Rightarrow> completed \<times> filesystem" where
  "demo_pack packagePath f =
     (if packagePath = ''good-plugin''
      then (\<lparr>status = 0, stdout = ''good-plugin-1.0.0.tgz'' @ nl, stderr = ''''\<rparr>,
            f(''/opt/plugins/good-plugin-1.0.0.tgz'' \<mapsto> File ''GOOD''))
      else (\<lparr>status = 1, stdout = '''', stderr = ''npm ERR! 404 Not Found'' @ nl\<rparr>, f))"

definition demo_yaml :: "string \<Rightarrow> error + jsval option" where
  "demo_yaml text =
     (if text = ''includes: [inc.yaml]''
      then Inr (Some (JObject Plain [(''includes'', js_array [JStr ''inc.yaml''])]))
      else if text = ''plugins: [{disabled: true}]''
      then Inr (Some (JObject Plain
             [(''plugins'', js_array [JObject Plain [(''disabled'', JBool True)]])]))
      else if text = ''plugins: [{package: good-plugin, integrity: sha256-q83vEjRWeJA=}]''
      then Inr (Some (JObject Plain
             [(''plugins'', js_array [JObject Plain
                [(''package'', JStr ''good-plugin''),
                 (''integrity'', JStr ''sha256-q83vEjRWeJA='')]])]))
      else if text = [] then Inr None
      else if text = nl @ nl \<or> text = tab \<or> text = ''# no plugins'' @ nl then Inr (Some JNull)
      else Inl YAMLException)"

definition demo_world :: world where
  "demo_world =
     \<lparr>argv2 = ''/opt/plugins'',
      env_MAX_ENTRY_SIZE = None,
      env_SKIP_INTEGRITY_CHECK = None,
      cwd = ''/work'',
      yaml_load = demo_yaml,
      yaml_dump = (\<lambda>config. ''config''),
      npm_pack = demo_pack,
      tar_entries = demo_entries,
      openssl_digest = (\<lambda>algorithm bytes. ''q83vEjRWeJA='' @ nl)\<rparr>"

definition demo_state :: state where
  "demo_state =
     \<lparr>fs = [''/opt/plugins'' \<mapsto> Dir,
            ''/opt/plugins/good-plugin-1.0.0.tgz'' \<mapsto> File ''GOOD'',
            ''/opt/plugins/evil-1.0.0.tgz'' \<mapsto> File ''EVIL'',
            ''/opt/plugins/evil-1.0.0'' \<mapsto> Dir,
            ''/opt/plugins/bomb-1.0.0.tgz'' \<mapsto> File ''BOMB'',
            ''/opt/plugins/bomb-1.0.0'' \<mapsto> Dir,
            ''/opt/plugins/small-1.0.0.tgz'' \<mapsto> File ''SMALL'',
            ''/opt/plugins/small-1.0.0'' \<mapsto> Dir],
      trace = []\<rparr>"

definition manifest_state :: "string \<Rightarrow> state" where
  "manifest_state text =
     \<lparr>fs = [''/opt/plugins'' \<mapsto> Dir,
            ''dynamic-plugins.yaml'' \<mapsto> File text,
            ''inc.yaml'' \<mapsto> File ''plugins: [{disabled: true}]''],
      trace = []\<rparr>"

definition good_manifest :: string where
  "good_manifest = ''plugins: [{package: good-plugin, integrity: sha256-q83vEjRWeJA=}]''"

definition reinstall_state :: state where
  "reinstall_state =
     \<lparr>fs = [''/opt/plugins'' \<mapsto> Dir,
            ''/opt/plugins/good-plugin-1.0.0'' \<mapsto> Dir,
            ''dynamic-plugins.yaml'' \<mapsto> File good_manifest],
      trace = []\<rparr>"

definition installed_state :: state where
  "installed_state =
     demo_state\<lparr>fs := (fs demo_state)(''/opt/plugins/good-plugin-1.0.0'' \<mapsto> Dir)\<rparr>"

definition good_plugin :: jsval where
  "good_plugin =
     JObject Plain [(''package'', JStr ''good-plugin''),
                    (''integrity'', JStr ''sha256-q83vEjRWeJA=''),
                    (''pluginConfig'', JObject Plain [(''x'', JObject Plain [(''y'', JNum 1)])])]"

definition missing_plugin :: jsval where
  "missing_plugin =
     JObject Plain [(''package'', JStr ''missing-plugin''),
                    (''integrity'', JStr ''sha256-q83vEjRWeJA='')]"

section \<open>Properties of merge\<close>

lemma merge_loop_scalar:
  "is_scalar v \<Longrightarrow> merge_loop ((k, v) # rest) d p =
     (case js_in k d of
        Inl e \<Rightarrow> Inl e
      | Inr present \<Rightarrow>
          (case (if present then js_get d k else Inr None) of
             Inl e \<Rightarrow> Inl e
           | Inr got \<Rightarrow>
               if present \<and> (v = JNaN \<or> got \<noteq> Some v)
               then Inl (InstallException (conflict_message (p @ k)))
               else (case js_set d k v of
                       Inl e \<Rightarrow> Inl e
                     | Inr d' \<Rightarrow> merge_loop rest d' p)))"
  by (cases v) auto

lemma jsval_shapes:
  obtains (obj) a ps where "v = JObject a ps" | (builtin) n where "v = JBuiltin n"
    | (scalar) "is_scalar v"
  by (cases v) auto

lemma merge_loop_append:
  "merge_loop (xs @ ys) d p =
     (case merge_loop xs d p of Inl e \<Rightarrow> Inl e | Inr d' \<Rightarrow> merge_loop ys d' p)"
proof (induction xs arbitrary: d)
  case Nil
  then show ?case by simp
next
  case (Cons x xs)
  obtain k v where x: "x = (k, v)" by (cases x)
  show ?case
  proof (cases v rule: jsval_shapes)
    case (obj a ps)
    then show ?thesis using Cons.IH x by (simp split: sum.splits)
  next
    case (builtin n)
    then show ?thesis using x by simp
  next
    case scalar
    then show ?thesis using Cons.IH x by (simp add: merge_loop_scalar split: sum.splits)
  qed
qed

text \<open>A successful merge into an object leaves every key it does not visit as it was.\<close>

lemma merge_loop_keeps:
  "merge_loop xs (JObject b d) p = Inr r \<Longrightarrow>
     \<exists>d'. r = JObject b d' \<and> (\<forall>k. k \<notin> set (map fst xs) \<longrightarrow> map_of d' k = map_of d k)"
proof (induction xs arbitrary: d)
  case Nil
  then show ?case by auto
next
  case (Cons x xs)
  obtain k v where x: "x = (k, v)" by (cases x)
  have "\<exists>w. merge_loop xs (JObject b (AList.update k w d)) p = Inr r"
  proof (cases v rule: jsval_shapes)
    case (obj a ps)
    with Cons.prems x show ?thesis by (auto split: sum.splits)
  next
    case (builtin n)
    with Cons.prems x show ?thesis by simp
  next
    case scalar
    with Cons.prems x show ?thesis
      by (auto simp: merge_loop_scalar split: sum.splits if_splits)
  qed
  then obtain w where m: "merge_loop xs (JObject b (AList.update k w d)) p = Inr r" ..
  from Cons.IH [OF m] show ?case using x by (auto simp: update_conv')
qed

text \<open>Whether a merge succeeds, and with what, does not depend on the prefix.\<close>

lemma merge_loop_prefix:
  "merge_loop xs d p = Inr r \<Longrightarrow> merge_loop xs d q = Inr r"
proof (induction xs arbitrary: d)
  case Nil
  then show ?case by simp
next
  case (Cons x xs)
  obtain k v where x: "x = (k, v)" by (cases x)
  show ?case
  proof (cases v rule: jsval_shapes)
    case (obj a ps)
    with Cons.prems x Cons.IH show ?thesis by (auto split: sum.splits)
  next
    case (builtin n)
    with Cons.prems x show ?thesis by simp
  next
    case scalar
    with Cons.prems x Cons.IH show ?thesis
      by (auto simp: merge_loop_scalar split: sum.splits if_splits)
  qed
qed

lemma in_keys_iff: "k \<in> set (map fst d) \<longleftrightarrow> map_of d k \<noteq> None"
  by (simp add: map_of_eq_None_iff)

text \<open>On a name that is not inherited, an object answers with its own properties.\<close>

lemma js_in_own:
  "k \<notin> set (inherited b) \<Longrightarrow> js_in k (JObject b d) = Inr (k \<in> set (map fst d))"
  by simp

lemma js_get_own:
  "k \<notin> set (inherited b) \<Longrightarrow> js_get (JObject b d) k = Inr (map_of d k)"
  by (cases b) (auto split: option.splits)

lemma merge_loop_scalar_own:
  assumes "is_scalar v" and "v \<noteq> JNaN" and "k \<notin> set (inherited b)"
  shows "merge_loop ((k, v) # rest) (JObject b d) p =
           (if k \<in> set (map fst d) \<and> map_of d k \<noteq> Some v
            then Inl (InstallException (conflict_message (p @ k)))
            else merge_loop rest (JObject b (AList.update k v d)) p)"
proof -
  have "merge_loop ((k, v) # rest) (JObject b d) p =
     (case (if k \<in> set (map fst d) then Inr (map_of d k) else Inr None) of
        Inl e \<Rightarrow> Inl e
      | Inr got \<Rightarrow>
          if k \<in> set (map fst d) \<and> (v = JNaN \<or> got \<noteq> Some v)
          then Inl (InstallException (conflict_message (p @ k)))
          else merge_loop rest (JObject b (AList.update k v d)) p)"
    by (simp only: merge_loop_scalar [OF assms(1)] js_in_own [OF assms(3)]
          js_get_own [OF assms(3)] js_set.simps sum.case)
  then show ?thesis using assms(2) by simp
qed

text \<open>
  C3 (as amended). Take any key \<open>k\<close> of the fragment whose value \<open>v\<close> is a scalar other
  than \<^verbatim>\<open>NaN\<close> (\<^verbatim>\<open>null\<close>, a boolean, a number or a string), at any place in the fragment,
  the keys before it having merged without error into the destination object, and let
  \<open>k\<close> be none of the names that the destination inherits. Then \<^verbatim>\<open>merge\<close> fails at \<open>k\<close>
  exactly when the destination already has \<open>k\<close> with a different value; the error is an
  InstallException whose message names \<open>k\<close> after the prefix of this call and carries
  neither of the two values. Otherwise the value is stored under \<open>k\<close>, the merge goes on
  with the remaining keys, and when it returns, the result holds \<open>v\<close> under \<open>k\<close>. When the
  fragment lies under the key \<open>x\<close> of a fragment that is merged with the empty prefix, as
  \<^verbatim>\<open>main\<close> calls \<^verbatim>\<open>merge\<close>, into a tree that holds the destination under \<open>x\<close>, the message
  of the conflict names \<open>x.k\<close>.
\<close>

theorem merge_scalar_key:
  assumes "is_scalar v" and "v \<noteq> JNaN" and "k \<notin> set (inherited b)"
    and "k \<notin> set (map fst pre)" and "k \<notin> set (map fst post)"
    and "merge_loop pre (JObject b d) p = Inr (JObject b d1)"
  shows "merge (JObject a (pre @ (k, v) # post)) (JObject b d) p =
           (if k \<in> set (map fst d) \<and> map_of d k \<noteq> Some v
            then Inl (InstallException (conflict_message (p @ k)))
            else merge_loop post (JObject b (AList.update k v d1)) p)
         \<and> (\<forall>r. merge (JObject a (pre @ (k, v) # post)) (JObject b d) p = Inr r
                \<longrightarrow> js_get r k = Inr (Some v))
         \<and> (k \<in> set (map fst d) \<and> map_of d k \<noteq> Some v
              \<longrightarrow> merge (JObject a' [(x, JObject a (pre @ (k, v) # post))])
                        (JObject Plain [(x, JObject b d)]) ''''
                    = Inl (InstallException (conflict_message (x @ ''.'' @ k))))"
proof -
  from merge_loop_keeps [OF assms(6)] assms(4)
  have same: "map_of d1 k = map_of d k" by auto
  then have keys: "k \<in> set (map fst d1) \<longleftrightarrow> k \<in> set (map fst d)"
    by (simp only: in_keys_iff)
  have step: "merge_loop (pre @ (k, v) # post) (JObject b d) q =
           (if k \<in> set (map fst d) \<and> map_of d k \<noteq> Some v
            then Inl (InstallException (conflict_message (q @ k)))
            else merge_loop post (JObject b (AList.update k v d1)) q)" for q
  proof -
    from assms(6) have "merge_loop pre (JObject b d) q = Inr (JObject b d1)"
      by (rule merge_loop_prefix)
    then show ?thesis
      using same keys
      by (simp add: merge_loop_append merge_loop_scalar_own [OF assms(1,2,3)])
  qed
  have eq: "merge (JObject a (pre @ (k, v) # post)) (JObject b d) p =
           (if k \<in> set (map fst d) \<and> map_of d k \<noteq> Some v
            then Inl (InstallException (conflict_message (p @ k)))
            else merge_loop post (JObject b (AList.update k v d1)) p)"
    using step [of p] by (simp add: merge_def)
  have got: "js_get r k = Inr (Some v)"
    if r: "merge (JObject a (pre @ (k, v) # post)) (JObject b d) p = Inr r" for r
  proof -
    have m: "merge_loop post (JObject b (AList.update k v d1)) p = Inr r"
    proof (cases "k \<in> set (map fst d) \<and> map_of d k \<noteq> Some v")
      case True
      with r eq show ?thesis by simp
    next
      case False
      with r eq show ?thesis by auto
    qed
    from merge_loop_keeps [OF m] assms(5) show ?thesis
      by (auto simp: update_conv')
  qed
  have nested: "merge (JObject a' [(x, JObject a (pre @ (k, v) # post))])
                  (JObject Plain [(x, JObject b d)]) ''''
                = Inl (InstallException (conflict_message (x @ ''.'' @ k)))"
    if "k \<in> set (map fst d) \<and> map_of d k \<noteq> Some v"
    using that step [of "x @ ''.''"] by (simp add: merge_def node_or_new_def)
  from eq got nested show ?thesis by blast
qed

theorem merge_scalar_key_witness:
  "merge (JObject Plain [(''a'', JNum 1), (''y'', JNum 2), (''z'', JStr ''s'')])
        (JObject Plain [(''y'', JNum 1)]) ''''
       = Inl (InstallException ''Config key 'y' defined differently for 2 dynamic plugins'')
   \<and> merge (JObject Plain [(''x'', JObject Plain [(''a'', JNum 1), (''y'', JNum 2), (''z'', JStr ''s'')])])
        (JObject Plain [(''x'', JObject Plain [(''y'', JNum 1)])]) ''''
       = Inl (InstallException ''Config key 'x.y' defined differently for 2 dynamic plugins'')
   \<and> merge (JObject Plain [(''a'', JNum 1), (''y'', JNum 2), (''z'', JStr ''s'')])
        (JObject Plain [(''w'', JNum 1)]) ''''
       = Inr (JObject Plain [(''w'', JNum 1), (''a'', JNum 1), (''y'', JNum 2), (''z'', JStr ''s'')])
   \<and> js_get (JObject Plain [(''w'', JNum 1), (''a'', JNum 1), (''y'', JNum 2), (''z'', JStr ''s'')]) ''y''
       = Inr (Some (JNum 2))"
proof -
  have h1: "is_scalar (JNum 2)" by simp
  have h2: "JNum 2 \<noteq> JNaN" by simp
  have h3: "''y'' \<notin> set (inherited Plain)" by (simp add: Object_prototype_names_def)
  have h4: "''y'' \<notin> set (map fst [(''a'', JNum 1)])" by simp
  have h5: "''y'' \<notin> set (map fst [(''z'', JStr ''s'')])" by simp
  have h6: "merge_loop [(''a'', JNum 1)] (JObject Plain [(''y'', JNum 1)]) ''''
       = Inr (JObject Plain [(''y'', JNum 1), (''a'', JNum 1)])"
    by (simp add: Object_prototype_names_def)
  have h7: "merge_loop [(''a'', JNum 1)] (JObject Plain [(''w'', JNum 1)]) ''''
       = Inr (JObject Plain [(''w'', JNum 1), (''a'', JNum 1)])"
    by (simp add: Object_prototype_names_def)
  have post: "merge_loop [(''z'', JStr ''s'')]
                (JObject Plain [(''w'', JNum 1), (''a'', JNum 1), (''y'', JNum 2)]) ''''
       = Inr (JObject Plain [(''w'', JNum 1), (''a'', JNum 1), (''y'', JNum 2), (''z'', JStr ''s'')])"
    by (simp add: Object_prototype_names_def)
  from merge_scalar_key [where a = Plain and a' = Plain and x = "''x''", OF h1 h2 h3 h4 h5 h6]
       merge_scalar_key [where a = Plain and a' = Plain and x = "''x''", OF h1 h2 h3 h4 h5 h7]
       post
  show ?thesis by (simp add: conflict_message_def quote_def)
qed

text \<open>
  C3 as stated fails: the error of a conflict is the same whatever the two conflicting
  values are. Its message is the key path and fixed words, and names neither value.
\<close>

theorem merge_conflict_message_counterexample:
  "merge (JObject Plain [(''x'', JObject Plain [(''y'', JNum 2)])])
         (JObject Plain [(''x'', JObject Plain [(''y'', JNum 1)])]) ''''
     = Inl (InstallException ''Config key 'x.y' defined differently for 2 dynamic plugins'')
   \<and> merge (JObject Plain [(''x'', JObject Plain [(''y'', JStr ''on'')])])
         (JObject Plain [(''x'', JObject Plain [(''y'', JBool False)])]) ''''
     = Inl (InstallException ''Config key 'x.y' defined differently for 2 dynamic plugins'')"
  by (simp add: merge_def node_or_new_def conflict_message_def quote_def
        Object_prototype_names_def)

text \<open>
  Outside the amended claim: three levels down the message names only the last two
  keys, \<^verbatim>\<open>b.c\<close> for the path \<^verbatim>\<open>a.b.c\<close>, since the recursive call passes on the key and
  not the prefix before it; a key named like an inherited property conflicts with a
  destination that does not have it; and \<^verbatim>\<open>NaN\<close> conflicts with itself.
\<close>

lemma merge_conflicts_outside:
  "merge (JObject Plain [(''a'', JObject Plain [(''b'', JObject Plain [(''c'', JNum 2)])])])
         (JObject Plain [(''a'', JObject Plain [(''b'', JObject Plain [(''c'', JNum 1)])])]) ''''
     = Inl (InstallException ''Config key 'b.c' defined differently for 2 dynamic plugins'')
   \<and> merge (JObject Plain [(''constructor'', JStr ''x'')]) (JObject Plain []) ''''
     = Inl (InstallException ''Config key 'constructor' defined differently for 2 dynamic plugins'')
   \<and> merge (JObject Plain [(''ratio'', JNaN)]) (JObject Plain [(''ratio'', JNaN)]) ''''
     = Inl (InstallException ''Config key 'ratio' defined differently for 2 dynamic plugins'')"
  by (simp add: merge_def node_or_new_def conflict_message_def quote_def
        Object_prototype_names_def)

text \<open>
  C4 fails on the code: an array in the fragment passes the test
  \<^verbatim>\<open>typeof value === 'object' && value !== null\<close> and is merged index by index.
  Merged into an empty tree, \<^verbatim>\<open>{a: [1, 2]}\<close> leaves a plain object with the keys
  \<^verbatim>\<open>'0'\<close> and \<^verbatim>\<open>'1'\<close> under \<^verbatim>\<open>a\<close>. A second fragment with the different array
  \<^verbatim>\<open>[1, 2, 3]\<close> then merges with no conflict, and one with \<^verbatim>\<open>[1, 3]\<close> conflicts on the
  single index \<^verbatim>\<open>a.1\<close>. A destination that holds the array \<^verbatim>\<open>[1, 2]\<close> itself takes
  \<^verbatim>\<open>[1, 2, 3]\<close> with no conflict as well.
\<close>

theorem merge_array_by_index:
  "merge (JObject Plain [(''a'', js_array [JNum 1, JNum 2])]) (JObject Plain []) ''''
     = Inr (JObject Plain [(''a'', JObject Plain [(''0'', JNum 1), (''1'', JNum 2)])])
   \<and> merge (JObject Plain [(''a'', js_array [JNum 1, JNum 2, JNum 3])])
         (JObject Plain [(''a'', JObject Plain [(''0'', JNum 1), (''1'', JNum 2)])]) ''''
     = Inr (JObject Plain
         [(''a'', JObject Plain [(''0'', JNum 1), (''1'', JNum 2), (''2'', JNum 3)])])
   \<and> merge (JObject Plain [(''a'', js_array [JNum 1, JNum 3])])
         (JObject Plain [(''a'', JObject Plain [(''0'', JNum 1), (''1'', JNum 2)])]) ''''
     = Inl (InstallException ''Config key 'a.1' defined differently for 2 dynamic plugins'')
   \<and> merge (JObject Plain [(''a'', js_array [JNum 1, JNum 2, JNum 3])])
         (JObject Plain [(''a'', js_array [JNum 1, JNum 2])]) ''''
     = Inr (JObject Plain [(''a'', js_array [JNum 1, JNum 2, JNum 3])])"
  by (simp add: merge_def node_or_new_def conflict_message_def quote_def js_array_def
        nat_to_string.simps digit_char_def upt_rec Object_prototype_names_def
        Array_prototype_names_def)

section \<open>Properties of the resolution\<close>




section \<open>Properties of the run\<close>

lemma root_config_file:
  "path_join ''/opt/plugins'' ''app-config.dynamic-plugins.yaml''
     = ''/opt/plugins/app-config.dynamic-plugins.yaml''"
  by (simp add: path_join_def path_normalize_def)

lemma root_config_parent:
  "parent_of ''/opt/plugins/app-config.dynamic-plugins.yaml'' = ''/opt/plugins''"
  by (simp add: parent_of_def)

lemma root_archive:
  "path_join ''/opt/plugins'' ''good-plugin-1.0.0.tgz'' = ''/opt/plugins/good-plugin-1.0.0.tgz''"
  by (simp add: path_join_def path_normalize_def)

lemma parseInt_default: "parseInt ''20000000'' = Some 20000000"
  by (simp add: parseInt_def is_ws_def is_digit_def digits_value_def)

lemmas demo_defs = demo_world_def demo_yaml_def demo_pack_def demo_entries_def
  manifest_state_def demo_state_def installed_state_def good_plugin_def missing_plugin_def

lemmas run_defs = run_def main_def install_all_def list_field_def install_plugin_def
  fetch_plugin_def install_archive_def extract_archive_def merge_pluginConfig_def
  verifyPackageIntegrity_def digest_archive_def cat_command_def cat_words_def
  execSync_result_def Buffer_get_def tar_extract_def extract_filter_def ReadEntry_def
  andThen_def realpathSync_def rmdirSync_def mkdirSync_def unlinkSync_def
  writeFileSync_def parent_error_def readFileSync_def existsSync_def emit_def
  dynamicPluginsFile_def dynamicPluginsGlobalConfigFile_def maxEntrySize_def
  skipIntegrityCheck_def globalConfig0_def packagePath_of_def directory_of_def
  root_config_file root_config_parent root_archive parseInt_default
  typeof_object_def to_string_opt_def js_array_def
  nat_to_string.simps digit_char_def startsWith_def slice_def trim_def is_ws_def
  Buffer_from_base64_def RECOGNIZED_ALGORITHMS_def js_gt_def merge_def node_or_new_def
  Object_prototype_names_def quote_def tab_def nl_def Let_def

text \<open>
  C9 fails on the code for a blank manifest. The test for an empty manifest asks whether
  \<^verbatim>\<open>yaml.load\<close> returned \<^verbatim>\<open>undefined\<close> or the empty string. That is so for an empty file;
  a file of two line ends, of a tab, or of a comment loads as \<^verbatim>\<open>null\<close>, which passes this
  test and also the next one, \<^verbatim>\<open>typeof content !== 'object'\<close>, and \<^verbatim>\<open>content.includes\<close>
  then throws a TypeError: the run ends with status 1 and has written no file. A missing
  manifest and an empty one do end with status 0 after writing the empty file.
\<close>

theorem blank_manifest_crashes:
  "fst (run demo_world (manifest_state (nl @ nl))) = 1
   \<and> trace (snd (run demo_world (manifest_state (nl @ nl)))) = [ConsoleError TypeError]
   \<and> fs (snd (run demo_world (manifest_state (nl @ nl))))
        ''/opt/plugins/app-config.dynamic-plugins.yaml'' = None
   \<and> run demo_world (manifest_state tab)
     = (1, (manifest_state tab)\<lparr>trace := [ConsoleError TypeError]\<rparr>)
   \<and> run demo_world (manifest_state (''# no plugins'' @ nl))
     = (1, (manifest_state (''# no plugins'' @ nl))\<lparr>trace := [ConsoleError TypeError]\<rparr>)
   \<and> fst (run demo_world (manifest_state '''')) = 0
   \<and> trace (snd (run demo_world (manifest_state '''')))
     = [Log ''dynamic-plugins.yaml file is empty. Skipping dynamic plugins installation.'',
        WriteFile ''/opt/plugins/app-config.dynamic-plugins.yaml'' '''']
   \<and> fs (snd (run demo_world (manifest_state '''')))
        ''/opt/plugins/app-config.dynamic-plugins.yaml'' = Some (File '''')
   \<and> fst (run demo_world demo_state) = 0
   \<and> trace (snd (run demo_world demo_state))
     = [Log ''No dynamic-plugins.yaml file found. Skipping dynamic plugins installation.'',
        WriteFile ''/opt/plugins/app-config.dynamic-plugins.yaml'' '''']"
  by (simp add: demo_defs run_defs)

text \<open>
  Where the installation root does not exist, the write of the empty file throws, and
  the run of a missing manifest ends with status 1 as well.
\<close>

lemma missing_root_fails:
  "run demo_world \<lparr>fs = Map.empty, trace = []\<rparr>
     = (1, \<lparr>fs = Map.empty,
            trace =
              [Log ''No dynamic-plugins.yaml file found. Skipping dynamic plugins installation.'',
               WriteFile ''/opt/plugins/app-config.dynamic-plugins.yaml'' '''',
               ConsoleError (FsError ''ENOENT'' ''/opt/plugins/app-config.dynamic-plugins.yaml'')]\<rparr>)"
  by (simp add: demo_defs run_defs)

text \<open>
  C8 fails on the code for the entries of an include. The loop over the plugins of an
  include stores each entry under whatever its \<^verbatim>\<open>package\<close> property turns into, with no
  test: the entry \<^verbatim>\<open>{disabled: true}\<close> is kept under the key \<^verbatim>\<open>undefined\<close>, is skipped
  as disabled, and the run ends with status 0. An entry without a package that is not
  disabled gets as far as \<^verbatim>\<open>package_.startsWith\<close>, a TypeError. The same entry in the
  root manifest's own list is refused with an InstallException.
\<close>

theorem include_entry_without_package:
  "fst (main_includes demo_world [JStr ''inc.yaml''] []
          (manifest_state ''includes: [inc.yaml]''))
     = Inr [(''undefined'', JObject Plain [(''disabled'', JBool True)])]
   \<and> fst (run demo_world (manifest_state ''includes: [inc.yaml]'')) = 0
   \<and> trace (snd (run demo_world (manifest_state ''includes: [inc.yaml]'')))
     = [Log (nl @ ''======= Including dynamic plugins from inc.yaml''),
        Log (nl @ ''======= Skipping disabled dynamic plugin undefined''),
        WriteFile ''/opt/plugins/app-config.dynamic-plugins.yaml'' ''config'']
   \<and> fst (install_plugin demo_world (JObject Plain [(''pluginConfig'', JNull)])
            globalConfig0 demo_state) = Inl TypeError
   \<and> fst (main_plugins [JObject Plain [(''disabled'', JBool True)]] [] demo_state)
     = Inl (InstallException
         ''content of the 'plugins.package' field must be a string in dynamic-plugins.yaml'')"
  by (simp add: demo_defs run_defs)

text \<open>
  C6 fails on the code. \<^verbatim>\<open>Buffer.from\<close> throws on no string, so the \<^verbatim>\<open>catch\<close> that
  reports an invalid base64 encoding is never entered: with the integrity
  \<^verbatim>\<open>sha256-!!!!\<close> the archive is read and hashed, and the error is the mismatch of the
  two hashes.
\<close>

theorem invalid_base64_is_hashed:
  "verifyPackageIntegrity demo_world
     (JObject Plain [(''package'', JStr ''good-plugin''), (''integrity'', JStr ''sha256-!!!!'')])
     ''/opt/plugins/good-plugin-1.0.0.tgz'' ''/opt/plugins'' demo_state
   = (Some (InstallException
        (''good-plugin: The hash of the downloaded package q83vEjRWeJA= does not match''
         @ '' the provided integrity hash !!!! provided in the configuration file'')),
      demo_state\<lparr>trace :=
        [ExecSync ''cat /opt/plugins/good-plugin-1.0.0.tgz'',
         ExecSync ''openssl dgst -sha256 -binary'',
         ExecSync ''openssl base64 -A'']\<rparr>)"
  by (simp add: demo_defs run_defs)

section \<open>Properties of the installation of one plugin\<close>

text \<open>
  C1 fails on the code. \<^verbatim>\<open>execSync\<close> returns the output of \<^verbatim>\<open>npm pack\<close> and not a record
  of how it ended, so \<^verbatim>\<open>completed.status\<close> is \<^verbatim>\<open>undefined\<close>, the test
  \<^verbatim>\<open>completed.status !== 0\<close> holds after every successful \<^verbatim>\<open>npm pack\<close>, and building the
  message of the InstallException throws a TypeError at \<^verbatim>\<open>completed.stderr.toString()\<close>.
  A plugin whose archive was packed, with its old directory in place, is neither
  verified nor extracted, and the run ends with status 1. When \<^verbatim>\<open>npm pack\<close> fails,
  \<^verbatim>\<open>execSync\<close> itself throws, with the text of the standard error in its message. No call
  of \<^verbatim>\<open>npm pack\<close>, however it ends, is followed by the rest of the installation.
\<close>

theorem npm_pack_result_misread:
  "fst (install_plugin demo_world good_plugin globalConfig0 installed_state) = Inl TypeError
   \<and> trace (snd (install_plugin demo_world good_plugin globalConfig0 installed_state))
     = [Log (nl @ ''======= Installing dynamic plugin good-plugin''),
        Log (tab @ ''==> Grabbing package archive through `npm pack`''),
        ExecSync ''npm pack good-plugin'']
   \<and> fst (run demo_world reinstall_state) = 1
   \<and> trace (snd (run demo_world reinstall_state))
     = [Log (nl @ ''======= Installing dynamic plugin good-plugin''),
        Log (tab @ ''==> Grabbing package archive through `npm pack`''),
        ExecSync ''npm pack good-plugin'',
        ConsoleError TypeError]
   \<and> fs (snd (run demo_world reinstall_state))
        ''/opt/plugins/app-config.dynamic-plugins.yaml'' = None
   \<and> fst (install_plugin demo_world missing_plugin globalConfig0 installed_state)
     = Inl (ExecError (''Command failed: npm pack missing-plugin'' @ nl
                       @ ''npm ERR! 404 Not Found'' @ nl))
   \<and> trace (snd (install_plugin demo_world missing_plugin globalConfig0 installed_state))
     = [Log (nl @ ''======= Installing dynamic plugin missing-plugin''),
        Log (tab @ ''==> Grabbing package archive through `npm pack`''),
        ExecSync ''npm pack missing-plugin'']
   \<and> (\<forall>w plugin package globalConfig s r.
         fst (fetch_plugin w plugin package globalConfig s) \<noteq> Inr r)"
proof -
  have general: "\<forall>w plugin package globalConfig s r.
         fst (fetch_plugin w plugin package globalConfig s) \<noteq> Inr r"
    by (simp add: fetch_plugin_def Buffer_get_def Let_def split: sum.split)
  have good: "fst (install_plugin demo_world good_plugin globalConfig0 installed_state) = Inl TypeError
   \<and> trace (snd (install_plugin demo_world good_plugin globalConfig0 installed_state))
     = [Log (nl @ ''======= Installing dynamic plugin good-plugin''),
        Log (tab @ ''==> Grabbing package archive through `npm pack`''),
        ExecSync ''npm pack good-plugin'']"
    by (simp add: demo_defs run_defs)
  have again: "fst (run demo_world reinstall_state) = 1
   \<and> trace (snd (run demo_world reinstall_state))
     = [Log (nl @ ''======= Installing dynamic plugin good-plugin''),
        Log (tab @ ''==> Grabbing package archive through `npm pack`''),
        ExecSync ''npm pack good-plugin'',
        ConsoleError TypeError]
   \<and> fs (snd (run demo_world reinstall_state))
        ''/opt/plugins/app-config.dynamic-plugins.yaml'' = None"
    by (simp add: demo_defs reinstall_state_def good_manifest_def run_defs)
  have missing: "fst (install_plugin demo_world missing_plugin globalConfig0 installed_state)
     = Inl (ExecError (''Command failed: npm pack missing-plugin'' @ nl
                       @ ''npm ERR! 404 Not Found'' @ nl))
   \<and> trace (snd (install_plugin demo_world missing_plugin globalConfig0 installed_state))
     = [Log (nl @ ''======= Installing dynamic plugin missing-plugin''),
        Log (tab @ ''==> Grabbing package archive through `npm pack`''),
        ExecSync ''npm pack missing-plugin'']"
    by (simp add: demo_defs run_defs)
  from good again missing general show ?thesis by blast
qed

text \<open>
  C10 fails on the code: no run gets as far as \<^verbatim>\<open>fs.realpathSync\<close>. A first installation,
  with no directory at the target path, ends with status 1, but what ends it is the
  TypeError that follows the successful \<^verbatim>\<open>npm pack\<close>, and \<^verbatim>\<open>fs.realpathSync\<close> is not
  called. Taken by themselves, the steps from \<^verbatim>\<open>fs.realpathSync\<close> to the removal of the
  archive do end at \<^verbatim>\<open>fs.realpathSync\<close> with \<^verbatim>\<open>ENOENT\<close> when the directory is missing.
\<close>

theorem realpath_never_reached:
  "fs (manifest_state good_manifest) ''/opt/plugins/good-plugin-1.0.0'' = None
   \<and> fst (run demo_world (manifest_state good_manifest)) = 1
   \<and> trace (snd (run demo_world (manifest_state good_manifest)))
     = [Log (nl @ ''======= Installing dynamic plugin good-plugin''),
        Log (tab @ ''==> Grabbing package archive through `npm pack`''),
        ExecSync ''npm pack good-plugin'',
        ConsoleError TypeError]
   \<and> install_plugin demo_world good_plugin globalConfig0 demo_state
     = (Inl TypeError,
        demo_state\<lparr>trace :=
          [Log (nl @ ''======= Installing dynamic plugin good-plugin''),
           Log (tab @ ''==> Grabbing package archive through `npm pack`''),
           ExecSync ''npm pack good-plugin'']\<rparr>)
   \<and> extract_archive demo_world (maxEntrySize demo_world)
        ''/opt/plugins/good-plugin-1.0.0.tgz'' demo_state
     = (Some (FsError ''ENOENT'' ''/opt/plugins/good-plugin-1.0.0''),
        demo_state\<lparr>trace := [RealPath ''/opt/plugins/good-plugin-1.0.0'']\<rparr>)"
proof -
  have same: "(fs demo_state)(''/opt/plugins/good-plugin-1.0.0.tgz'' \<mapsto> File ''GOOD'')
                = fs demo_state"
    by (rule ext) (simp add: demo_state_def)
  have "install_plugin demo_world good_plugin globalConfig0 demo_state
     = (Inl TypeError,
        demo_state\<lparr>fs := (fs demo_state)(''/opt/plugins/good-plugin-1.0.0.tgz'' \<mapsto> File ''GOOD''),
          trace :=
          [Log (nl @ ''======= Installing dynamic plugin good-plugin''),
           Log (tab @ ''==> Grabbing package archive through `npm pack`''),
           ExecSync ''npm pack good-plugin'']\<rparr>)"
    by (simp add: demo_world_def demo_pack_def good_plugin_def run_defs)
      (simp add: demo_state_def)
  then have one: "install_plugin demo_world good_plugin globalConfig0 demo_state
     = (Inl TypeError,
        demo_state\<lparr>trace :=
          [Log (nl @ ''======= Installing dynamic plugin good-plugin''),
           Log (tab @ ''==> Grabbing package archive through `npm pack`''),
           ExecSync ''npm pack good-plugin'']\<rparr>)"
    by (simp only: same) simp
  have rest: "fs (manifest_state good_manifest) ''/opt/plugins/good-plugin-1.0.0'' = None
   \<and> fst (run demo_world (manifest_state good_manifest)) = 1
   \<and> trace (snd (run demo_world (manifest_state good_manifest)))
     = [Log (nl @ ''======= Installing dynamic plugin good-plugin''),
        Log (tab @ ''==> Grabbing package archive through `npm pack`''),
        ExecSync ''npm pack good-plugin'',
        ConsoleError TypeError]
   \<and> extract_archive demo_world (maxEntrySize demo_world)
        ''/opt/plugins/good-plugin-1.0.0.tgz'' demo_state
     = (Some (FsError ''ENOENT'' ''/opt/plugins/good-plugin-1.0.0''),
        demo_state\<lparr>trace := [RealPath ''/opt/plugins/good-plugin-1.0.0'']\<rparr>)"
    by (simp add: demo_defs good_manifest_def run_defs)
  from one rest show ?thesis by simp
qed

section \<open>Properties of the extraction\<close>

text \<open>
  C2 fails on the code. The filter tests \<^verbatim>\<open>entry.name\<close>, a property that the entries of
  \<^verbatim>\<open>tar\<close> do not have: \<^verbatim>\<open>entry.name.startsWith\<close> throws a TypeError on the first entry of
  every archive, whatever its path, and the exception ends the process. An archive
  whose entries all lie under \<^verbatim>\<open>package/\<close> is not extracted, and the archive with the
  entry \<^verbatim>\<open>evil/../../etc/passwd\<close> ends with the TypeError and not with the
  InstallException that the filter has for it. On an entry that did have the name, the
  filter throws that InstallException, and it strips the prefix from the name of an
  entry it accepts.
\<close>

theorem filter_reads_missing_name:
  "tar_extract demo_world (maxEntrySize demo_world)
     ''/opt/plugins/good-plugin-1.0.0.tgz'' ''/opt/plugins/good-plugin-1.0.0'' installed_state
     = (Some (Uncaught TypeError),
        installed_state\<lparr>trace :=
          [TarExtract ''/opt/plugins/good-plugin-1.0.0.tgz'' ''/opt/plugins/good-plugin-1.0.0'']\<rparr>)
   \<and> tar_extract demo_world (maxEntrySize demo_world)
       ''/opt/plugins/evil-1.0.0.tgz'' ''/opt/plugins/evil-1.0.0'' demo_state
     = (Some (Uncaught TypeError),
        demo_state\<lparr>trace :=
          [TarExtract ''/opt/plugins/evil-1.0.0.tgz'' ''/opt/plugins/evil-1.0.0'']\<rparr>)
   \<and> (\<forall>m h. extract_filter m (ReadEntry h) = Inl TypeError)
   \<and> extract_filter (maxEntrySize demo_world)
       \<lparr>entry_path = ''evil/../../etc/passwd'', entry_size = 4, entry_content = ''root'',
        entry_name = Some ''evil/../../etc/passwd''\<rparr>
     = Inl (InstallException
         ''NPM package archive archive does not start with 'package/' as it should: evil/../../etc/passwd'')
   \<and> extract_filter (maxEntrySize demo_world)
       \<lparr>entry_path = ''package/index.js'', entry_size = 4, entry_content = ''code'',
        entry_name = Some ''package/index.js''\<rparr>
     = Inr \<lparr>entry_path = ''package/index.js'', entry_size = 4, entry_content = ''code'',
            entry_name = Some ''index.js''\<rparr>"
  by (simp add: demo_defs run_defs)

text \<open>
  C7 fails on the code. The test of the declared size comes after the read of
  \<^verbatim>\<open>entry.name\<close>, which throws a TypeError on every entry: the archive with an entry that
  declares 20000001 bytes ends with that TypeError and not with the InstallException
  of the size test, and so does an archive whose only entry declares 4 bytes. On an
  entry that did have the name, the filter compares the declared size with the ceiling,
  20000000 by default, whatever the bytes that follow.
\<close>

theorem size_test_never_reached:
  "maxEntrySize demo_world = Some 20000000
   \<and> tar_extract demo_world (maxEntrySize demo_world)
       ''/opt/plugins/bomb-1.0.0.tgz'' ''/opt/plugins/bomb-1.0.0'' demo_state
     = (Some (Uncaught TypeError),
        demo_state\<lparr>trace :=
          [TarExtract ''/opt/plugins/bomb-1.0.0.tgz'' ''/opt/plugins/bomb-1.0.0'']\<rparr>)
   \<and> tar_extract demo_world (maxEntrySize demo_world)
       ''/opt/plugins/small-1.0.0.tgz'' ''/opt/plugins/small-1.0.0'' demo_state
     = (Some (Uncaught TypeError),
        demo_state\<lparr>trace :=
          [TarExtract ''/opt/plugins/small-1.0.0.tgz'' ''/opt/plugins/small-1.0.0'']\<rparr>)
   \<and> extract_filter (maxEntrySize demo_world)
       \<lparr>entry_path = ''package/big.bin'', entry_size = 20000001, entry_content = ''tiny'',
        entry_name = Some ''package/big.bin''\<rparr>
     = Inl (InstallException ''Zip bomb detected in package/big.bin'')
   \<and> extract_filter (maxEntrySize demo_world)
       \<lparr>entry_path = ''package/small.bin'', entry_size = 20000000, entry_content = ''tiny'',
        entry_name = Some ''package/small.bin''\<rparr>
     = Inr \<lparr>entry_path = ''package/small.bin'', entry_size = 20000000, entry_content = ''tiny'',
            entry_name = Some ''small.bin''\<rparr>"
  by (simp add: demo_defs run_defs)

end
